theory Spec2Isabelle
  imports Main "HOL-Library.Multiset" "HOL-Library.Sublist"
begin

section \<open>Roles and the permission helpers (client/src/lib/permissions.ts)\<close>

text \<open>
  Modelled from the spec: the type declarations \<open>Role\<close> and \<open>Section\<close> of
  \<open>@shared/schema\<close> are not among the sources. \<open>Role\<close> is the six-valued union the
  keys of \<open>ROLE_HIERARCHY\<close>, \<open>ROLE_COLORS\<close> and \<open>ROLE_LABELS\<close> enumerate. A section is
  kept as the string the code compares against its literals: the server takes it from
  the URL, so any string can arrive.
\<close>

datatype Role = User | Helper | Moderator | Admin | Developer | Owner

type_synonym Section = string

fun ROLE_HIERARCHY :: "Role \<Rightarrow> nat" where
  "ROLE_HIERARCHY User = 0"
| "ROLE_HIERARCHY Helper = 1"
| "ROLE_HIERARCHY Moderator = 2"
| "ROLE_HIERARCHY Admin = 3"
| "ROLE_HIERARCHY Developer = 3"
| "ROLE_HIERARCHY Owner = 4"

definition canAccessSection :: "Role \<Rightarrow> Section \<Rightarrow> bool" where
  "canAccessSection role section =
     (if section = ''dev-panel'' then role = Developer \<or> role = Owner else True)"

definition canDeletePost :: "Role \<Rightarrow> bool" where
  "canDeletePost role = (ROLE_HIERARCHY role \<ge> ROLE_HIERARCHY Moderator)"

definition canRevivePost :: "Role \<Rightarrow> bool" where
  "canRevivePost role = (ROLE_HIERARCHY role \<ge> ROLE_HIERARCHY Admin)"

definition canTagBugReport :: "Role \<Rightarrow> bool" where
  "canTagBugReport role = (role = Developer \<or> role = Owner)"

definition canViewAllReports :: "Role \<Rightarrow> Section \<Rightarrow> bool" where
  "canViewAllReports role section =
     (if section = ''player-reports'' then ROLE_HIERARCHY role \<ge> ROLE_HIERARCHY Moderator
      else if section = ''bug-reports'' then role = Developer \<or> role = Owner
      else if section = ''support-tickets'' then ROLE_HIERARCHY role \<ge> ROLE_HIERARCHY Helper
      else False)"

section \<open>The stored rows\<close>

text \<open>
  Rows carry the columns the code reads and writes. Timestamps are integers
  (milliseconds); a nullable column is an \<open>option\<close>. The field \<open>id\<close> of each table is
  written with the table's name, since \<open>id\<close> is HOL's identity function, and a post's
  \<open>section\<close> column is \<open>post_section\<close>.
\<close>

record UserRow =
  user_id :: nat
  username :: string
  role :: Role
  postCount :: "int option"
  messageCount :: "int option"
  badge :: "string option"

record Post =
  post_id :: nat
  authorId :: nat
  post_section :: Section
  title :: string
  content :: string
  status :: "string option"
  deleted :: bool
  deletedBy :: "nat option"
  createdAt :: int
  updatedAt :: int

record Appeal =
  appeal_id :: nat
  appeal_userId :: nat
  punishmentId :: nat
  reason :: string
  approved :: "bool option"
  appeal_createdAt :: int

text \<open>
  The store: each table is the list of its rows, in whatever order the store holds
  them.
\<close>

record Db =
  users :: "UserRow list"
  posts :: "Post list"
  appeals :: "Appeal list"

section \<open>Storage (server/storage.ts)\<close>

text \<open>
  \<open>orderBy(desc(column))\<close>: the rows by descending key. The query names no second key,
  so SQL leaves the order of rows with equal keys to the store; here such rows keep
  the order in which the table's list holds them, and every order the store may
  choose is the result for some order of that list.
\<close>

definition orderBy_desc :: "('a \<Rightarrow> int) \<Rightarrow> 'a list \<Rightarrow> 'a list" where
  "orderBy_desc column rows = sort_key (\<lambda>r. - column r) rows"

definition getUser :: "Db \<Rightarrow> nat \<Rightarrow> UserRow option" where
  "getUser db uid = find (\<lambda>u. user_id u = uid) (users db)"

text \<open>The \<open>whereConditions\<close> that \<open>getPosts\<close> builds, as a predicate on a row.\<close>

definition whereConditions :: "Section \<Rightarrow> Role \<Rightarrow> nat \<Rightarrow> Post \<Rightarrow> bool" where
  "whereConditions section requesterRole requesterId p =
     (if section = ''player-reports'' then
        (if ROLE_HIERARCHY requesterRole < ROLE_HIERARCHY Moderator
         then post_section p = section \<and> authorId p = requesterId
         else post_section p = section)
      else if section = ''bug-reports'' then
        (if requesterRole \<noteq> Developer \<and> requesterRole \<noteq> Owner
         then post_section p = section \<and> authorId p = requesterId
         else post_section p = section)
      else if section = ''support-tickets'' then
        (if ROLE_HIERARCHY requesterRole < ROLE_HIERARCHY Helper
         then post_section p = section \<and> authorId p = requesterId
         else post_section p = section)
      else post_section p = section)"

text \<open>
  \<open>getPosts\<close>: the selected rows, newest first. The joined author columns are not
  carried: no property below reads them.
\<close>

definition getPosts :: "Db \<Rightarrow> Section \<Rightarrow> Role \<Rightarrow> nat \<Rightarrow> Post list" where
  "getPosts db section requesterRole requesterId =
     orderBy_desc createdAt (filter (whereConditions section requesterRole requesterId) (posts db))"

definition getPost :: "Db \<Rightarrow> nat \<Rightarrow> Post option" where
  "getPost db pid = find (\<lambda>p. post_id p = pid) (posts db)"

text \<open>
  \<open>updatePost\<close>: every row with the id takes the given fields and \<open>updatedAt\<close>, the
  time of the call (\<open>now\<close> stands for \<open>new Date()\<close>). An absent field of \<open>updates\<close>
  leaves the column as it is.
\<close>

record Updates =
  new_title :: "string option"
  new_content :: "string option"

definition updatePost :: "Db \<Rightarrow> int \<Rightarrow> nat \<Rightarrow> Updates \<Rightarrow> Db" where
  "updatePost db now pid updates =
     db\<lparr>posts := map (\<lambda>p. if post_id p = pid
                           then p\<lparr>title := (case new_title updates of Some t \<Rightarrow> t | None \<Rightarrow> title p),
                                  content := (case new_content updates of Some c \<Rightarrow> c | None \<Rightarrow> content p),
                                  updatedAt := now\<rparr>
                           else p) (posts db)\<rparr>"

text \<open>
  \<open>deletePost\<close>: every row with the id is marked deleted, by \<open>deleter\<close> (the
  parameter \<open>deletedBy\<close> of the source, which is also the column's name).
\<close>

definition deletePost :: "Db \<Rightarrow> nat \<Rightarrow> nat \<Rightarrow> Db" where
  "deletePost db pid deleter =
     db\<lparr>posts := map (\<lambda>p. if post_id p = pid
                           then p\<lparr>deleted := True, deletedBy := Some deleter\<rparr>
                           else p) (posts db)\<rparr>"

text \<open>
  \<open>updateUserBadge\<close>. \<open>or0\<close> is \<open>x || 0\<close> on a nullable counter, \<open>totalCount\<close> the
  local constant of that name, and \<open>newBadge\<close> the chain of comparisons that
  assigns the local variable of that name.
\<close>

fun or0 :: "int option \<Rightarrow> int" where
  "or0 None = 0"
| "or0 (Some n) = n"

definition newBadge :: "int \<Rightarrow> string" where
  "newBadge totalCount =
     (if totalCount \<ge> 300 then ''legendary-qube''
      else if totalCount \<ge> 225 then ''unique-qube''
      else if totalCount \<ge> 150 then ''epic-qube''
      else if totalCount \<ge> 80 then ''qubed''
      else if totalCount \<ge> 35 then ''climber''
      else if totalCount \<ge> 10 then ''member''
      else ''new-member'')"

definition totalCount :: "UserRow \<Rightarrow> int" where
  "totalCount u = or0 (postCount u) + or0 (messageCount u)"

definition updateUserBadge :: "Db \<Rightarrow> nat \<Rightarrow> Db" where
  "updateUserBadge db userId =
     (case getUser db userId of
        None \<Rightarrow> db
      | Some u \<Rightarrow>
          if Some (newBadge (totalCount u)) \<noteq> badge u
          then db\<lparr>users := map (\<lambda>r. if user_id r = userId
                                     then r\<lparr>badge := Some (newBadge (totalCount u))\<rparr>
                                     else r) (users db)\<rparr>
          else db)"

text \<open>
  \<open>getAppeals\<close>. Its condition is \<open>eq(appeals.approved, null)\<close>. \<open>eq\<close> is the query
  library's (drizzle-orm), which is not among the sources: \<open>eq(column, value)\<close> is the
  SQL comparison \<open>column = value\<close>, with the value bound as a parameter. SQL's \<open>=\<close> is
  unknown as soon as one side is NULL, and \<open>where\<close> keeps a row only when its condition
  is true. \<open>sql_eq\<close> is that comparison, \<open>None\<close> standing for NULL and for unknown. (The
  conditions of \<open>getPosts\<close> compare columns and values that are never NULL, where it is
  plain equality.)
\<close>

definition sql_eq :: "'a option \<Rightarrow> 'a option \<Rightarrow> bool option" where
  "sql_eq x y = (case x of None \<Rightarrow> None
                 | Some a \<Rightarrow> (case y of None \<Rightarrow> None | Some b \<Rightarrow> Some (a = b)))"

definition getAppeals :: "Db \<Rightarrow> Appeal list" where
  "getAppeals db =
     orderBy_desc appeal_createdAt
       (filter (\<lambda>a. sql_eq (approved a) None = Some True) (appeals db))"

section \<open>Routes (server/routes.ts)\<close>

text \<open>
  A response is its status code and its body; \<open>res.json(x)\<close> answers 200. A handler
  that writes returns the store with its response. The session's \<open>userId\<close> is absent
  or a number, and \<open>!req.session.userId\<close> holds for 0 as for an absent one:
  \<open>authenticated\<close> gives the id that passes this check. The \<open>:id\<close> of a route is taken
  as the number \<open>parseInt\<close> read.
\<close>

datatype Body =
    Message string
  | PostList "Post list"
  | PostRow "Post option"
  | AppealList "Appeal list"

type_synonym Response = "nat \<times> Body"

definition authenticated :: "nat option \<Rightarrow> nat option" where
  "authenticated session =
     (case session of None \<Rightarrow> None | Some n \<Rightarrow> if n = 0 then None else Some n)"

definition get_api_posts :: "Db \<Rightarrow> nat option \<Rightarrow> Section \<Rightarrow> Response" where
  "get_api_posts db session section =
     (case authenticated session of
        None \<Rightarrow> (401, Message ''Not authenticated'')
      | Some userId \<Rightarrow>
          (case getUser db userId of
             None \<Rightarrow> (401, Message ''User not found'')
           | Some u \<Rightarrow> (200, PostList (getPosts db section (role u) (user_id u)))))"

text \<open>
  Modelled from the spec: \<open>updatePostSchema\<close> of \<open>@shared/schema\<close> is not among the
  sources; the spec gives the constraints enforced at the boundary, a title of at most
  200 characters and a body of at most 10000. A body that fails them makes \<open>parse\<close>
  throw, which the handler answers with 400; the message of that answer is the
  validator's, and the handler's fallback text stands for it here.
\<close>

definition updatePostSchema :: "Updates \<Rightarrow> bool" where
  "updatePostSchema updates =
     ((case new_title updates of None \<Rightarrow> True | Some t \<Rightarrow> length t \<le> 200)
      \<and> (case new_content updates of None \<Rightarrow> True | Some c \<Rightarrow> length c \<le> 10000))"

definition patch_api_posts :: "Db \<Rightarrow> int \<Rightarrow> nat option \<Rightarrow> nat \<Rightarrow> Updates \<Rightarrow> Response \<times> Db" where
  "patch_api_posts db now session postId body =
     (case authenticated session of
        None \<Rightarrow> ((401, Message ''Not authenticated''), db)
      | Some userId \<Rightarrow>
          (case getPost db postId of
             None \<Rightarrow> ((404, Message ''Post not found''), db)
           | Some post \<Rightarrow>
               if authorId post \<noteq> userId
               then ((403, Message ''You can only edit your own posts''), db)
               else if \<not> updatePostSchema body
               then ((400, Message ''Failed to update post''), db)
               else if new_title body = None \<and> new_content body = None
               then ((400, Message ''No fields to update''), db)
               else (let db' = updatePost db now postId body
                     in ((200, PostRow (getPost db' postId)), db'))))"

definition delete_api_posts :: "Db \<Rightarrow> nat option \<Rightarrow> nat \<Rightarrow> Response \<times> Db" where
  "delete_api_posts db session postId =
     (case authenticated session of
        None \<Rightarrow> ((401, Message ''Not authenticated''), db)
      | Some userId \<Rightarrow>
          (case getUser db userId of
             None \<Rightarrow> ((401, Message ''User not found''), db)
           | Some u \<Rightarrow>
               if ROLE_HIERARCHY (role u) < ROLE_HIERARCHY Moderator
               then ((403, Message ''Insufficient permissions''), db)
               else (case getPost db postId of
                       None \<Rightarrow> ((404, Message ''Post not found''), db)
                     | Some post \<Rightarrow>
                         (let db' = deletePost db postId userId
                          in ((200, Message ''Post deleted successfully''), db')))))"

text \<open>
  \<open>user?.role\<close> is undefined when no user was found, and then differs from each of the
  three roles.
\<close>

definition notAppealStaff :: "UserRow option \<Rightarrow> bool" where
  "notAppealStaff u =
     (case u of None \<Rightarrow> True
      | Some r \<Rightarrow> role r \<noteq> Owner \<and> role r \<noteq> Admin \<and> role r \<noteq> Moderator)"

definition get_api_appeals :: "Db \<Rightarrow> nat option \<Rightarrow> Response" where
  "get_api_appeals db session =
     (case authenticated session of
        None \<Rightarrow> (401, Message ''Not authenticated'')
      | Some userId \<Rightarrow>
          if notAppealStaff (getUser db userId) then (403, Message ''Not authorized'')
          else (200, AppealList (getAppeals db)))"

text \<open>
  The two handlers that decide an appeal: after the checks each holds only the comment
  \<open>// Update appeal approval status\<close> (\<open>rejection\<close> in the second) and answers; the
  \<open>:id\<close> is never read and the store is not written.
\<close>

definition post_api_appeals_approve :: "Db \<Rightarrow> nat option \<Rightarrow> nat \<Rightarrow> Response \<times> Db" where
  "post_api_appeals_approve db session appealId =
     (case authenticated session of
        None \<Rightarrow> ((401, Message ''Not authenticated''), db)
      | Some userId \<Rightarrow>
          if notAppealStaff (getUser db userId) then ((403, Message ''Not authorized''), db)
          else ((200, Message ''Appeal approved''), db))"

definition post_api_appeals_reject :: "Db \<Rightarrow> nat option \<Rightarrow> nat \<Rightarrow> Response \<times> Db" where
  "post_api_appeals_reject db session appealId =
     (case authenticated session of
        None \<Rightarrow> ((401, Message ''Not authenticated''), db)
      | Some userId \<Rightarrow>
          if notAppealStaff (getUser db userId) then ((403, Message ''Not authorized''), db)
          else ((200, Message ''Appeal rejected''), db))"

section \<open>The section page (client/src/pages/section.tsx)\<close>

definition canViewAllInSection :: "Section \<Rightarrow> Role \<Rightarrow> bool" where
  "canViewAllInSection section userRole =
     (if section = ''player-reports'' then ROLE_HIERARCHY userRole \<ge> ROLE_HIERARCHY Moderator
      else if section = ''bug-reports'' then userRole = Developer \<or> userRole = Owner
      else if section = ''support-tickets'' then ROLE_HIERARCHY userRole \<ge> ROLE_HIERARCHY Helper
      else True)"

text \<open>
  The strings' \<open>includes\<close> (a keyword here, so \<open>js_includes\<close>): whether the second
  string occurs in the first.
\<close>

fun js_includes :: "string \<Rightarrow> string \<Rightarrow> bool" where
  "js_includes [] q = (q = [])"
| "js_includes (c # cs) q = (prefix q (c # cs) \<or> js_includes cs q)"

text \<open>
  The three callbacks of the \<open>filter\<close> chain of \<open>visiblePosts\<close>, in its order.
  \<open>String.prototype.toLowerCase\<close> is the runtime's and lowers every cased letter of
  Unicode; it is the parameter \<open>toLowerCase\<close> of the search filter and of what calls
  it, and nothing is assumed of it.
\<close>

definition deletedFilter :: "UserRow \<Rightarrow> Post \<Rightarrow> bool" where
  "deletedFilter u post = (if \<not> deleted post then True else canRevivePost (role u))"

definition reportFilter :: "UserRow \<Rightarrow> Section \<Rightarrow> Post \<Rightarrow> bool" where
  "reportFilter u section post =
     (if section = ''player-reports'' \<or> section = ''bug-reports'' \<or> section = ''support-tickets''
      then (if canViewAllInSection section (role u) then True else authorId post = user_id u)
      else True)"

definition searchFilter :: "(string \<Rightarrow> string) \<Rightarrow> string \<Rightarrow> Post \<Rightarrow> bool" where
  "searchFilter toLowerCase searchQuery post =
     (if searchQuery = [] then True
      else (let query = toLowerCase searchQuery
            in js_includes (toLowerCase (title post)) query
               \<or> js_includes (toLowerCase (content post)) query))"

text \<open>
  \<open>visiblePosts\<close>: \<open>fetched\<close> is the query's \<open>data\<close>, absent until the list has
  arrived, and \<open>posts?.filter\<close> is then absent too.
\<close>

definition visiblePosts ::
  "(string \<Rightarrow> string) \<Rightarrow> UserRow \<Rightarrow> Section \<Rightarrow> string \<Rightarrow> Post list option \<Rightarrow> Post list option" where
  "visiblePosts toLowerCase u section searchQuery fetched =
     map_option (\<lambda>ps. filter (searchFilter toLowerCase searchQuery)
                        (filter (reportFilter u section)
                          (filter (deletedFilter u) ps))) fetched"

datatype PageView = Nothing | AccessDenied | Loading | Cards "Post list" | NoPostsYet

definition SectionPage ::
  "(string \<Rightarrow> string) \<Rightarrow> UserRow option \<Rightarrow> Section \<Rightarrow> string \<Rightarrow> Post list option \<Rightarrow> bool
     \<Rightarrow> PageView" where
  "SectionPage toLowerCase usr section searchQuery fetched isLoading =
     (case usr of
        None \<Rightarrow> Nothing
      | Some u \<Rightarrow>
          if \<not> canAccessSection (role u) section then AccessDenied
          else if isLoading then Loading
          else (case visiblePosts toLowerCase u section searchQuery fetched of
                  Some vs \<Rightarrow> if length vs > 0 then Cards vs else NoPostsYet
                | None \<Rightarrow> NoPostsYet))"

section \<open>The order the spec asks of a listing\<close>

text \<open>
  Following the spec's words, not the code: ``sort by creation time, descending
  (newest first); ties broken by item id descending''. Of two items in the list, the
  earlier is the newer one, or they are of the same time and the earlier has the
  greater id.
\<close>

definition newest_first_ties_by_id :: "Post list \<Rightarrow> bool" where
  "newest_first_ties_by_id ps =
     sorted_wrt (\<lambda>a b. createdAt a > createdAt b
                       \<or> (createdAt a = createdAt b \<and> post_id a > post_id b)) ps"

section \<open>A sample store\<close>

text \<open>
  Eight users, of every role but owner and with a total count in every band of the
  badge, posts in an open section, in \<open>bug-reports\<close> and in \<open>dev-panel\<close>, and four
  appeals. The concrete evaluations below run on it.
\<close>

definition alice :: UserRow where
  "alice = \<lparr>user_id = 1, username = ''alice'', role = User,
            postCount = Some 9, messageCount = Some 0, badge = None\<rparr>"

definition hank :: UserRow where
  "hank = \<lparr>user_id = 2, username = ''hank'', role = Helper,
           postCount = Some 30, messageCount = Some 5, badge = Some ''member''\<rparr>"

definition mona :: UserRow where
  "mona = \<lparr>user_id = 3, username = ''mona'', role = Moderator,
           postCount = None, messageCount = None, badge = None\<rparr>"

definition adam :: UserRow where
  "adam = \<lparr>user_id = 4, username = ''adam'', role = Admin,
           postCount = Some 200, messageCount = Some 100, badge = Some ''legendary-qube''\<rparr>"

definition dana :: UserRow where
  "dana = \<lparr>user_id = 5, username = ''dana'', role = Developer,
           postCount = Some 5, messageCount = Some 5, badge = None\<rparr>"

definition mort :: UserRow where
  "mort = \<lparr>user_id = 7, username = ''mort'', role = Moderator,
           postCount = Some 80, messageCount = Some 0, badge = None\<rparr>"

definition erin :: UserRow where
  "erin = \<lparr>user_id = 8, username = ''erin'', role = User,
           postCount = Some 100, messageCount = Some 50, badge = Some ''qubed''\<rparr>"

definition uma :: UserRow where
  "uma = \<lparr>user_id = 9, username = ''uma'', role = User,
          postCount = Some 200, messageCount = Some 25, badge = Some ''unique-qube''\<rparr>"

definition p_live :: Post where
  "p_live = \<lparr>post_id = 1, authorId = 1, post_section = ''general'', title = ''Hello'',
             content = ''first post'', status = None, deleted = False, deletedBy = None,
             createdAt = 100, updatedAt = 100\<rparr>"

definition p_dead :: Post where
  "p_dead = \<lparr>post_id = 2, authorId = 1, post_section = ''general'', title = ''Oops'',
             content = ''second post'', status = None, deleted = True, deletedBy = Some 3,
             createdAt = 100, updatedAt = 100\<rparr>"

definition bug_h :: Post where
  "bug_h = \<lparr>post_id = 3, authorId = 2, post_section = ''bug-reports'', title = ''Crash'',
            content = ''it crashes'', status = Some ''pending'', deleted = False,
            deletedBy = None, createdAt = 300, updatedAt = 300\<rparr>"

definition bug_a :: Post where
  "bug_a = \<lparr>post_id = 4, authorId = 1, post_section = ''bug-reports'', title = ''Typo'',
            content = ''a typo'', status = Some ''pending'', deleted = False,
            deletedBy = None, createdAt = 200, updatedAt = 200\<rparr>"

definition bug_d :: Post where
  "bug_d = \<lparr>post_id = 5, authorId = 5, post_section = ''bug-reports'', title = ''Leak'',
            content = ''a leak'', status = Some ''fixed'', deleted = False,
            deletedBy = None, createdAt = 250, updatedAt = 260\<rparr>"

definition p_dev :: Post where
  "p_dev = \<lparr>post_id = 6, authorId = 5, post_section = ''dev-panel'', title = ''Roadmap'',
            content = ''internal notes'', status = None, deleted = False,
            deletedBy = None, createdAt = 400, updatedAt = 400\<rparr>"

definition a_pending :: Appeal where
  "a_pending = \<lparr>appeal_id = 7, appeal_userId = 1, punishmentId = 1, reason = ''sorry'',
                approved = None, appeal_createdAt = 50\<rparr>"

definition a_approved :: Appeal where
  "a_approved = \<lparr>appeal_id = 8, appeal_userId = 2, punishmentId = 2, reason = ''mistake'',
                 approved = Some True, appeal_createdAt = 60\<rparr>"

definition a_rejected :: Appeal where
  "a_rejected = \<lparr>appeal_id = 9, appeal_userId = 1, punishmentId = 3, reason = ''again'',
                 approved = Some False, appeal_createdAt = 70\<rparr>"

definition a_newer :: Appeal where
  "a_newer = \<lparr>appeal_id = 10, appeal_userId = 2, punishmentId = 4, reason = ''please'',
              approved = None, appeal_createdAt = 80\<rparr>"

definition sample :: Db where
  "sample = \<lparr>users = [alice, hank, mona, adam, dana, mort, erin, uma],
             posts = [p_live, p_dead, bug_h, bug_a, bug_d, p_dev],
             appeals = [a_pending, a_approved, a_rejected, a_newer]\<rparr>"

section \<open>Properties\<close>

lemmas sample_defs =
  sample_def alice_def hank_def mona_def adam_def dana_def mort_def erin_def uma_def
  p_live_def p_dead_def bug_h_def bug_a_def bug_d_def p_dev_def
  a_pending_def a_approved_def a_rejected_def a_newer_def

lemmas page_defs =
  visiblePosts_def deletedFilter_def reportFilter_def searchFilter_def canRevivePost_def

subsection \<open>Ordering and lookup\<close>

lemma set_orderBy_desc: "set (orderBy_desc column rows) = set rows"
  by (simp add: orderBy_desc_def)

lemma mset_orderBy_desc: "mset (orderBy_desc column rows) = mset rows"
  by (simp add: orderBy_desc_def)

lemma sorted_desc_orderBy:
  "sorted_wrt (\<lambda>a b. column a \<ge> column b) (orderBy_desc column rows)"
proof -
  have "sorted (map (\<lambda>r. - column r) (sort_key (\<lambda>r. - column r) rows))" by (rule sorted_sort_key)
  then show ?thesis by (simp add: orderBy_desc_def sorted_map)
qed

text \<open>
  A list that is already newest first is returned as it is: whichever order of the
  rows of equal time the store yields, \<open>orderBy_desc\<close> gives it for the table held in
  that order.
\<close>

lemma orderBy_desc_of_sorted:
  "sorted_wrt (\<lambda>a b. column a \<ge> column b) rows \<Longrightarrow> orderBy_desc column rows = rows"
proof -
  assume "sorted_wrt (\<lambda>a b. column a \<ge> column b) rows"
  then have "sorted (map (\<lambda>r. - column r) rows)" by (simp add: sorted_map)
  then show ?thesis unfolding orderBy_desc_def by (rule sort_key_id_if_sorted)
qed

lemma getUser_SomeD: "getUser db uid = Some u \<Longrightarrow> user_id u = uid \<and> u \<in> set (users db)"
  by (auto simp: getUser_def find_Some_iff in_set_conv_nth)

lemma getPost_SomeD: "getPost db pid = Some p \<Longrightarrow> post_id p = pid \<and> p \<in> set (posts db)"
  by (auto simp: getPost_def find_Some_iff in_set_conv_nth)

lemma find_map_update:
  assumes "\<And>x. key (f x) = key x"
  shows "find (\<lambda>x. key x = k) (map (\<lambda>x. if key x = k then f x else x) xs)
         = map_option f (find (\<lambda>x. key x = k) xs)"
  using assms by (induction xs) auto

lemma map_update_idem:
  assumes "\<And>x. key (f x) = key x" and "\<And>x. f (f x) = f x"
  shows "map (\<lambda>x. if key x = k then f x else x) (map (\<lambda>x. if key x = k then f x else x) xs)
         = map (\<lambda>x. if key x = k then f x else x) xs"
  using assms by (induction xs) auto

subsection \<open>Roles\<close>

text \<open>
  C3: admin and developer have the same rank, 3, in \<open>ROLE_HIERARCHY\<close>, and differ in
  what they may do: developer and owner can access the \<open>dev-panel\<close> section and tag
  bug reports, admin can do neither.
\<close>

theorem admin_developer_same_rank_different_capabilities:
  "ROLE_HIERARCHY Admin = 3 \<and> ROLE_HIERARCHY Developer = 3
   \<and> ROLE_HIERARCHY Admin = ROLE_HIERARCHY Developer
   \<and> canAccessSection Developer ''dev-panel'' \<and> canAccessSection Owner ''dev-panel''
   \<and> \<not> canAccessSection Admin ''dev-panel''
   \<and> canTagBugReport Developer \<and> canTagBugReport Owner \<and> \<not> canTagBugReport Admin"
  by (simp add: canAccessSection_def canTagBugReport_def)

subsection \<open>Listing a section\<close>

text \<open>
  The rows \<open>getPosts\<close> selects do not depend on their \<open>deleted\<close> flag: the condition
  reads the section and the author only, and every stored row that meets it is in the
  list.
\<close>

lemma whereConditions_ignores_deleted:
  "whereConditions section r uid (p\<lparr>deleted := d, deletedBy := b\<rparr>) = whereConditions section r uid p"
  by (simp add: whereConditions_def)

lemma set_getPosts:
  "set (getPosts db section r uid) = {p \<in> set (posts db). whereConditions section r uid p}"
  by (simp add: getPosts_def set_orderBy_desc)

text \<open>
  C1, at a failing input: alice has the role user, of rank below admin, and post 2 of
  the sample's \<open>general\<close> section is soft-deleted. \<open>GET /api/posts/general\<close> answers her
  200 with both posts of the section, the deleted one among them.
\<close>

theorem get_api_posts_lists_deleted_to_user:
  "getUser sample 1 = Some alice \<and> role alice = User
   \<and> ROLE_HIERARCHY (role alice) < ROLE_HIERARCHY Admin
   \<and> deleted p_dead
   \<and> get_api_posts sample (Some 1) ''general'' = (200, PostList [p_live, p_dead])"
proof -
  have u: "getUser sample 1 = Some alice" by (simp add: getUser_def sample_defs)
  have r: "role alice = User" "user_id alice = 1" by (simp_all add: alice_def)
  have d: "deleted p_dead" by (simp add: p_dead_def)
  have g: "getPosts sample ''general'' User 1 = [p_live, p_dead]"
    by (simp add: getPosts_def orderBy_desc_def whereConditions_def sample_defs)
  have "get_api_posts sample (Some 1) ''general'' = (200, PostList [p_live, p_dead])"
    using u g by (simp add: get_api_posts_def authenticated_def r)
  with u r d show ?thesis by simp
qed

text \<open>
  The page does what the route does not. Whatever list it is handed and whatever
  \<open>toLowerCase\<close> is, \<open>visiblePosts\<close> gives a viewer of rank below admin what the other
  two filters leave of the posts that are not deleted, so no deleted post; and gives a
  viewer of rank admin or above what they leave of all the posts, the deleted ones as
  they are.
\<close>

lemma visiblePosts_by_rank:
  "(ROLE_HIERARCHY (role u) < ROLE_HIERARCHY Admin \<longrightarrow>
      visiblePosts lower u section q (Some ps)
        = Some (filter (searchFilter lower q)
                 (filter (reportFilter u section) (filter (\<lambda>p. \<not> deleted p) ps))))
   \<and> (ROLE_HIERARCHY (role u) \<ge> ROLE_HIERARCHY Admin \<longrightarrow>
      visiblePosts lower u section q (Some ps)
        = Some (filter (searchFilter lower q) (filter (reportFilter u section) ps)))"
proof -
  have low: "ROLE_HIERARCHY (role u) < ROLE_HIERARCHY Admin \<Longrightarrow> deletedFilter u = (\<lambda>p. \<not> deleted p)"
    by (auto simp: deletedFilter_def canRevivePost_def fun_eq_iff)
  have high: "ROLE_HIERARCHY (role u) \<ge> ROLE_HIERARCHY Admin \<Longrightarrow> deletedFilter u = (\<lambda>p. True)"
    by (auto simp: deletedFilter_def canRevivePost_def fun_eq_iff)
  show ?thesis by (simp add: visiblePosts_def low high)
qed

lemma visiblePosts_sample:
  "visiblePosts lower alice ''general'' [] (Some [p_live, p_dead]) = Some [p_live]
   \<and> visiblePosts lower adam ''general'' [] (Some [p_live, p_dead]) = Some [p_live, p_dead]"
  by (simp add: page_defs alice_def adam_def p_live_def p_dead_def)

text \<open>
  C2: in \<open>player-reports\<close>, \<open>bug-reports\<close> and \<open>support-tickets\<close>, \<open>getPosts\<close> gives a
  requester for whom \<open>canViewAllReports\<close> is false exactly the section's posts that the
  requester wrote, and a requester for whom it is true all posts of the section,
  whoever wrote them. (The conditions \<open>getPosts\<close> spells out are those of
  \<open>canViewAllReports\<close>: moderator rank, developer or owner, helper rank.)
\<close>

theorem getPosts_reports_own_or_all:
  "section \<in> {''player-reports'', ''bug-reports'', ''support-tickets''} \<Longrightarrow>
     (\<not> canViewAllReports r section \<longrightarrow>
        mset (getPosts db section r uid)
          = mset (filter (\<lambda>p. post_section p = section \<and> authorId p = uid) (posts db)))
   \<and> (canViewAllReports r section \<longrightarrow>
        mset (getPosts db section r uid)
          = mset (filter (\<lambda>p. post_section p = section) (posts db)))"
  by (auto simp: getPosts_def mset_orderBy_desc canViewAllReports_def whereConditions_def
      intro!: arg_cong [where f = mset] filter_cong)

text \<open>
  On the sample, whose \<open>bug-reports\<close> holds one post by the helper and two by others:
  the helper gets the one, the developer all three.
\<close>

theorem getPosts_reports_own_or_all_witness:
  "\<not> canViewAllReports Helper ''bug-reports''
   \<and> mset (getPosts sample ''bug-reports'' Helper 2) = {#bug_h#}
   \<and> canViewAllReports Moderator ''player-reports''
   \<and> canViewAllReports Developer ''bug-reports''
   \<and> mset (getPosts sample ''bug-reports'' Developer 5) = {#bug_h, bug_a, bug_d#}"
proof -
  have s: "''bug-reports'' \<in> {''player-reports'', ''bug-reports'', ''support-tickets''}" by simp
  have h: "\<not> canViewAllReports Helper ''bug-reports''" by (simp add: canViewAllReports_def)
  have d: "canViewAllReports Developer ''bug-reports''" by (simp add: canViewAllReports_def)
  have m: "canViewAllReports Moderator ''player-reports''" by (simp add: canViewAllReports_def)
  have "mset (getPosts sample ''bug-reports'' Helper 2)
        = mset (filter (\<lambda>p. post_section p = ''bug-reports'' \<and> authorId p = 2) (posts sample))"
    using getPosts_reports_own_or_all [OF s, of Helper sample 2] h by blast
  also have "\<dots> = {#bug_h#}" by (simp add: sample_defs)
  finally have own: "mset (getPosts sample ''bug-reports'' Helper 2) = {#bug_h#}" .
  have "mset (getPosts sample ''bug-reports'' Developer 5)
        = mset (filter (\<lambda>p. post_section p = ''bug-reports'') (posts sample))"
    using getPosts_reports_own_or_all [OF s, of Developer sample 5] d by blast
  also have "\<dots> = {#bug_h, bug_a, bug_d#}" by (simp add: sample_defs)
  finally have all: "mset (getPosts sample ''bug-reports'' Developer 5) = {#bug_h, bug_a, bug_d#}" .
  from h own m d all show ?thesis by blast
qed

text \<open>
  C7, at a failing input: alice has the role user, which \<open>canAccessSection\<close> denies the
  \<open>dev-panel\<close>; the route \<open>GET /api/posts/dev-panel\<close> never consults it and answers her
  200 with the section's posts.
\<close>

theorem get_api_posts_dev_panel_unchecked:
  "getUser sample 1 = Some alice \<and> role alice = User
   \<and> \<not> canAccessSection (role alice) ''dev-panel''
   \<and> get_api_posts sample (Some 1) ''dev-panel'' = (200, PostList [p_dev])"
proof -
  have u: "getUser sample 1 = Some alice" by (simp add: getUser_def sample_defs)
  have r: "role alice = User" "user_id alice = 1" by (simp_all add: alice_def)
  have c: "\<not> canAccessSection (role alice) ''dev-panel''" by (simp add: canAccessSection_def r)
  have g: "getPosts sample ''dev-panel'' User 1 = [p_dev]"
    by (simp add: getPosts_def orderBy_desc_def whereConditions_def sample_defs)
  have "get_api_posts sample (Some 1) ''dev-panel'' = (200, PostList [p_dev])"
    using u g by (simp add: get_api_posts_def authenticated_def r)
  with u r c show ?thesis by simp
qed

text \<open>
  The page built on that answer does deny: without the capability it renders the
  ``Access Denied'' card whatever was fetched.
\<close>

lemma SectionPage_denies:
  "\<not> canAccessSection (role u) section \<Longrightarrow>
   SectionPage lower (Some u) section q fetched loading = AccessDenied"
  by (simp add: SectionPage_def)

text \<open>
  C8 as stated fails: the sample's two posts in \<open>general\<close> have the same creation time
  and come back with the smaller id first, so the list is not in the order the spec
  describes. The same rows held in the other order come back in the other order: the
  rows alone do not determine the list.
\<close>

theorem getPosts_ties_counterexample:
  "getPosts sample ''general'' User 1 = [p_live, p_dead]
   \<and> createdAt p_live = createdAt p_dead \<and> post_id p_live < post_id p_dead
   \<and> \<not> newest_first_ties_by_id (getPosts sample ''general'' User 1)
   \<and> getPosts (sample\<lparr>posts := rev (posts sample)\<rparr>) ''general'' User 1 = [p_dead, p_live]"
proof -
  have g: "getPosts sample ''general'' User 1 = [p_live, p_dead]"
    by (simp add: getPosts_def orderBy_desc_def whereConditions_def sample_defs)
  have h: "getPosts (sample\<lparr>posts := rev (posts sample)\<rparr>) ''general'' User 1 = [p_dead, p_live]"
    by (simp add: getPosts_def orderBy_desc_def whereConditions_def sample_defs)
  have "\<not> newest_first_ties_by_id [p_live, p_dead]"
    by (simp add: newest_first_ties_by_id_def p_live_def p_dead_def)
  with g h show ?thesis by (simp add: p_live_def p_dead_def)
qed

text \<open>
  C8, as amended: the list \<open>getPosts\<close> returns holds exactly the selected rows and is
  sorted by creation time, newest first. Nothing orders two items of the same creation
  time.
\<close>

theorem getPosts_newest_first:
  "sorted_wrt (\<lambda>a b. createdAt a \<ge> createdAt b) (getPosts db section r uid)
   \<and> mset (getPosts db section r uid) = mset (filter (whereConditions section r uid) (posts db))"
  by (simp add: getPosts_def sorted_desc_orderBy mset_orderBy_desc)

subsection \<open>The badge\<close>

lemma newBadge_bands:
  "(300 \<le> t \<longrightarrow> newBadge t = ''legendary-qube'')
   \<and> (225 \<le> t \<and> t < 300 \<longrightarrow> newBadge t = ''unique-qube'')
   \<and> (150 \<le> t \<and> t < 225 \<longrightarrow> newBadge t = ''epic-qube'')
   \<and> (80 \<le> t \<and> t < 150 \<longrightarrow> newBadge t = ''qubed'')
   \<and> (35 \<le> t \<and> t < 80 \<longrightarrow> newBadge t = ''climber'')
   \<and> (10 \<le> t \<and> t < 35 \<longrightarrow> newBadge t = ''member'')
   \<and> (t < 10 \<longrightarrow> newBadge t = ''new-member'')"
  by (simp add: newBadge_def)

lemma getUser_updateUserBadge:
  assumes "getUser db uid = Some u"
  shows "getUser (updateUserBadge db uid) uid = Some (u\<lparr>badge := Some (newBadge (totalCount u))\<rparr>)"
proof (cases "Some (newBadge (totalCount u)) = badge u")
  case True
  then have "u\<lparr>badge := Some (newBadge (totalCount u))\<rparr> = u" by simp
  with True assms show ?thesis by (simp add: updateUserBadge_def)
next
  case False
  have "find (\<lambda>x. user_id x = uid)
          (map (\<lambda>x. if user_id x = uid then x\<lparr>badge := Some (newBadge (totalCount u))\<rparr> else x) (users db))
        = map_option (\<lambda>x. x\<lparr>badge := Some (newBadge (totalCount u))\<rparr>) (find (\<lambda>x. user_id x = uid) (users db))"
    by (rule find_map_update) simp
  with False assms show ?thesis by (simp add: updateUserBadge_def getUser_def)
qed

lemma updateUserBadge_idem:
  "updateUserBadge (updateUserBadge db uid) uid = updateUserBadge db uid"
proof (cases "getUser db uid")
  case None
  then show ?thesis by (simp add: updateUserBadge_def)
next
  case (Some u)
  let ?u' = "u\<lparr>badge := Some (newBadge (totalCount u))\<rparr>"
  have g: "getUser (updateUserBadge db uid) uid = Some ?u'"
    by (rule getUser_updateUserBadge [OF Some])
  have t: "totalCount ?u' = totalCount u" by (simp add: totalCount_def)
  have b: "badge ?u' = Some (newBadge (totalCount ?u'))" by (simp add: t)
  show ?thesis
    using g b t updateUserBadge_def [of "updateUserBadge db uid" uid] by simp
qed

text \<open>
  C4: for a stored user, \<open>updateUserBadge\<close> leaves the user with the badge \<open>newBadge\<close>
  gives for \<open>totalCount\<close>, the sum of the two counters (an absent counter counting 0),
  and changes nothing else of the user. The badge is the tier of the band the total
  falls in: 300 and up legendary-qube, 225 to 299 unique-qube, 150 to 224 epic-qube,
  80 to 149 qubed, 35 to 79 climber, 10 to 34 member, below 10 new-member. The counters
  (9,0), (10,0), (34,0), (35,0) and (300,0) give new-member, member, member, climber
  and legendary-qube. Running \<open>updateUserBadge\<close> a second time changes nothing.
\<close>

theorem updateUserBadge_thresholds:
  "getUser db uid = Some u \<Longrightarrow>
     getUser (updateUserBadge db uid) uid = Some (u\<lparr>badge := Some (newBadge (totalCount u))\<rparr>)
   \<and> totalCount u = or0 (postCount u) + or0 (messageCount u)
   \<and> (300 \<le> totalCount u \<longrightarrow> newBadge (totalCount u) = ''legendary-qube'')
   \<and> (225 \<le> totalCount u \<and> totalCount u < 300 \<longrightarrow> newBadge (totalCount u) = ''unique-qube'')
   \<and> (150 \<le> totalCount u \<and> totalCount u < 225 \<longrightarrow> newBadge (totalCount u) = ''epic-qube'')
   \<and> (80 \<le> totalCount u \<and> totalCount u < 150 \<longrightarrow> newBadge (totalCount u) = ''qubed'')
   \<and> (35 \<le> totalCount u \<and> totalCount u < 80 \<longrightarrow> newBadge (totalCount u) = ''climber'')
   \<and> (10 \<le> totalCount u \<and> totalCount u < 35 \<longrightarrow> newBadge (totalCount u) = ''member'')
   \<and> (totalCount u < 10 \<longrightarrow> newBadge (totalCount u) = ''new-member'')
   \<and> newBadge (totalCount (u\<lparr>postCount := Some 9, messageCount := Some 0\<rparr>)) = ''new-member''
   \<and> newBadge (totalCount (u\<lparr>postCount := Some 10, messageCount := Some 0\<rparr>)) = ''member''
   \<and> newBadge (totalCount (u\<lparr>postCount := Some 34, messageCount := Some 0\<rparr>)) = ''member''
   \<and> newBadge (totalCount (u\<lparr>postCount := Some 35, messageCount := Some 0\<rparr>)) = ''climber''
   \<and> newBadge (totalCount (u\<lparr>postCount := Some 300, messageCount := Some 0\<rparr>)) = ''legendary-qube''
   \<and> updateUserBadge (updateUserBadge db uid) uid = updateUserBadge db uid"
proof -
  assume g: "getUser db uid = Some u"
  have ex: "newBadge (totalCount (u\<lparr>postCount := Some 9, messageCount := Some 0\<rparr>)) = ''new-member''"
    "newBadge (totalCount (u\<lparr>postCount := Some 10, messageCount := Some 0\<rparr>)) = ''member''"
    "newBadge (totalCount (u\<lparr>postCount := Some 34, messageCount := Some 0\<rparr>)) = ''member''"
    "newBadge (totalCount (u\<lparr>postCount := Some 35, messageCount := Some 0\<rparr>)) = ''climber''"
    "newBadge (totalCount (u\<lparr>postCount := Some 300, messageCount := Some 0\<rparr>)) = ''legendary-qube''"
    by (simp_all add: totalCount_def newBadge_def)
  have t: "totalCount u = or0 (postCount u) + or0 (messageCount u)" by (simp add: totalCount_def)
  show ?thesis
    using getUser_updateUserBadge [OF g] t newBadge_bands [of "totalCount u"] ex
      updateUserBadge_idem [of db uid]
    by blast
qed

text \<open>
  On the sample, one user in each band: totals 9, 10, 35, 80, 150, 225 and 300 give
  new-member, member, climber, qubed, epic-qube, unique-qube and legendary-qube.
\<close>

theorem updateUserBadge_thresholds_witness:
  "getUser sample 1 = Some alice \<and> totalCount alice = 9
   \<and> getUser (updateUserBadge sample 1) 1 = Some (alice\<lparr>badge := Some ''new-member''\<rparr>)
   \<and> getUser sample 5 = Some dana \<and> totalCount dana = 10
   \<and> getUser (updateUserBadge sample 5) 5 = Some (dana\<lparr>badge := Some ''member''\<rparr>)
   \<and> getUser sample 2 = Some hank \<and> totalCount hank = 35
   \<and> getUser (updateUserBadge sample 2) 2 = Some (hank\<lparr>badge := Some ''climber''\<rparr>)
   \<and> getUser sample 7 = Some mort \<and> totalCount mort = 80
   \<and> getUser (updateUserBadge sample 7) 7 = Some (mort\<lparr>badge := Some ''qubed''\<rparr>)
   \<and> getUser sample 8 = Some erin \<and> totalCount erin = 150
   \<and> getUser (updateUserBadge sample 8) 8 = Some (erin\<lparr>badge := Some ''epic-qube''\<rparr>)
   \<and> getUser sample 9 = Some uma \<and> totalCount uma = 225
   \<and> getUser (updateUserBadge sample 9) 9 = Some (uma\<lparr>badge := Some ''unique-qube''\<rparr>)
   \<and> getUser sample 4 = Some adam \<and> totalCount adam = 300
   \<and> getUser (updateUserBadge sample 4) 4 = Some (adam\<lparr>badge := Some ''legendary-qube''\<rparr>)"
proof -
  have g: "getUser sample 1 = Some alice" "getUser sample 5 = Some dana" "getUser sample 2 = Some hank"
    "getUser sample 7 = Some mort" "getUser sample 8 = Some erin" "getUser sample 9 = Some uma"
    "getUser sample 4 = Some adam"
    by (simp_all add: getUser_def sample_def alice_def hank_def mona_def adam_def dana_def mort_def
          erin_def uma_def)
  have t: "totalCount alice = 9" "totalCount dana = 10" "totalCount hank = 35" "totalCount mort = 80"
    "totalCount erin = 150" "totalCount uma = 225" "totalCount adam = 300"
    by (simp_all add: totalCount_def alice_def hank_def adam_def dana_def mort_def erin_def uma_def)
  have b1: "getUser (updateUserBadge sample 1) 1 = Some (alice\<lparr>badge := Some ''new-member''\<rparr>)"
    using updateUserBadge_thresholds [OF g(1)] by (simp add: t)
  have b2: "getUser (updateUserBadge sample 5) 5 = Some (dana\<lparr>badge := Some ''member''\<rparr>)"
    using updateUserBadge_thresholds [OF g(2)] by (simp add: t)
  have b3: "getUser (updateUserBadge sample 2) 2 = Some (hank\<lparr>badge := Some ''climber''\<rparr>)"
    using updateUserBadge_thresholds [OF g(3)] by (simp add: t)
  have b4: "getUser (updateUserBadge sample 7) 7 = Some (mort\<lparr>badge := Some ''qubed''\<rparr>)"
    using updateUserBadge_thresholds [OF g(4)] by (simp add: t)
  have b5: "getUser (updateUserBadge sample 8) 8 = Some (erin\<lparr>badge := Some ''epic-qube''\<rparr>)"
    using updateUserBadge_thresholds [OF g(5)] by (simp add: t)
  have b6: "getUser (updateUserBadge sample 9) 9 = Some (uma\<lparr>badge := Some ''unique-qube''\<rparr>)"
    using updateUserBadge_thresholds [OF g(6)] by (simp add: t)
  have b7: "getUser (updateUserBadge sample 4) 4 = Some (adam\<lparr>badge := Some ''legendary-qube''\<rparr>)"
    using updateUserBadge_thresholds [OF g(7)] by (simp add: t)
  from g t b1 b2 b3 b4 b5 b6 b7 show ?thesis by blast
qed

subsection \<open>Editing a post\<close>

text \<open>
  C6, at a failing input: post 2 of the sample is soft-deleted and alice wrote it. Her
  \<open>PATCH /api/posts/2\<close> with a new title is answered 200, and the stored post has the
  new title and the new \<open>updatedAt\<close>: the handler checks the author and never the
  \<open>deleted\<close> flag.
\<close>

theorem patch_api_posts_edits_deleted_post:
  "getPost sample 2 = Some p_dead \<and> deleted p_dead \<and> authorId p_dead = 1
   \<and> fst (patch_api_posts sample 500 (Some 1) 2 \<lparr>new_title = Some ''Edited'', new_content = None\<rparr>)
       = (200, PostRow (Some (p_dead\<lparr>title := ''Edited'', updatedAt := 500\<rparr>)))
   \<and> getPost (snd (patch_api_posts sample 500 (Some 1) 2
                      \<lparr>new_title = Some ''Edited'', new_content = None\<rparr>)) 2
       = Some (p_dead\<lparr>title := ''Edited'', updatedAt := 500\<rparr>)"
proof -
  have p: "getPost sample 2 = Some p_dead" by (simp add: getPost_def sample_defs)
  have d: "deleted p_dead" "authorId p_dead = 1" by (simp_all add: p_dead_def)
  have v: "updatePostSchema \<lparr>new_title = Some ''Edited'', new_content = None\<rparr>"
    by (simp add: updatePostSchema_def)
  have g: "getPost (updatePost sample 500 2 \<lparr>new_title = Some ''Edited'', new_content = None\<rparr>) 2
           = Some (p_dead\<lparr>title := ''Edited'', updatedAt := 500\<rparr>)"
    by (simp add: getPost_def updatePost_def sample_defs)
  have "patch_api_posts sample 500 (Some 1) 2 \<lparr>new_title = Some ''Edited'', new_content = None\<rparr>
        = ((200, PostRow (Some (p_dead\<lparr>title := ''Edited'', updatedAt := 500\<rparr>))),
           updatePost sample 500 2 \<lparr>new_title = Some ''Edited'', new_content = None\<rparr>)"
    by (simp add: patch_api_posts_def authenticated_def p d v g Let_def)
  with p d g show ?thesis by simp
qed

text \<open>
  What the handler does check: an authenticated user who is not the author is answered
  403 and the store is left as it was, and an edit that succeeds is the author's and
  sets \<open>updatedAt\<close> to the time of the call.
\<close>

lemma patch_api_posts_not_author:
  "authenticated session = Some uid \<Longrightarrow> getPost db pid = Some p \<Longrightarrow> authorId p \<noteq> uid \<Longrightarrow>
   patch_api_posts db now session pid body = ((403, Message ''You can only edit your own posts''), db)"
  by (simp add: patch_api_posts_def)

lemma patch_api_posts_success_author:
  assumes "patch_api_posts db now session pid body = ((200, r), db')"
  shows "\<exists>uid p. session = Some uid \<and> getPost db pid = Some p \<and> authorId p = uid
           \<and> r = PostRow (getPost db' pid) \<and> map_option updatedAt (getPost db' pid) = Some now"
proof -
  from assms obtain uid p where a: "authenticated session = Some uid" and p: "getPost db pid = Some p"
    and au: "authorId p = uid" and d: "db' = updatePost db now pid body" and r: "r = PostRow (getPost db' pid)"
    by (auto simp: patch_api_posts_def Let_def split: option.splits if_splits)
  from a have s: "session = Some uid" by (auto simp: authenticated_def split: option.splits if_splits)
  have "find (\<lambda>x. post_id x = pid)
          (map (\<lambda>x. if post_id x = pid
                     then x\<lparr>title := (case new_title body of Some t \<Rightarrow> t | None \<Rightarrow> title x),
                            content := (case new_content body of Some c \<Rightarrow> c | None \<Rightarrow> content x),
                            updatedAt := now\<rparr>
                     else x) (posts db))
        = map_option (\<lambda>x. x\<lparr>title := (case new_title body of Some t \<Rightarrow> t | None \<Rightarrow> title x),
                            content := (case new_content body of Some c \<Rightarrow> c | None \<Rightarrow> content x),
                            updatedAt := now\<rparr>) (find (\<lambda>x. post_id x = pid) (posts db))"
    by (rule find_map_update) simp
  then have "map_option updatedAt (getPost db' pid) = Some now"
    using p by (simp add: d getPost_def updatePost_def)
  with s p au r show ?thesis by blast
qed

subsection \<open>Deleting a post\<close>

lemma getPost_deletePost:
  "getPost (deletePost db pid uid) pid
   = map_option (\<lambda>p. p\<lparr>deleted := True, deletedBy := Some uid\<rparr>) (getPost db pid)"
proof -
  have "find (\<lambda>x. post_id x = pid)
          (map (\<lambda>x. if post_id x = pid then x\<lparr>deleted := True, deletedBy := Some uid\<rparr> else x) (posts db))
        = map_option (\<lambda>x. x\<lparr>deleted := True, deletedBy := Some uid\<rparr>) (find (\<lambda>x. post_id x = pid) (posts db))"
    by (rule find_map_update) simp
  then show ?thesis by (simp add: getPost_def deletePost_def)
qed

lemma deletePost_others:
  "filter (\<lambda>q. post_id q \<noteq> pid) (posts (deletePost db pid uid)) = filter (\<lambda>q. post_id q \<noteq> pid) (posts db)"
proof -
  have "filter (\<lambda>q. post_id q \<noteq> pid) (map (\<lambda>x. if post_id x = pid then x\<lparr>deleted := True, deletedBy := Some uid\<rparr> else x) xs)
        = filter (\<lambda>q. post_id q \<noteq> pid) xs" for xs
    by (induction xs) auto
  then show ?thesis by (simp add: deletePost_def)
qed

lemma deletePost_twice: "deletePost (deletePost db pid uid) pid uid = deletePost db pid uid"
proof -
  have "map (\<lambda>x. if post_id x = pid then x\<lparr>deleted := True, deletedBy := Some uid\<rparr> else x)
          (map (\<lambda>x. if post_id x = pid then x\<lparr>deleted := True, deletedBy := Some uid\<rparr> else x) (posts db))
        = map (\<lambda>x. if post_id x = pid then x\<lparr>deleted := True, deletedBy := Some uid\<rparr> else x) (posts db)"
    by (rule map_update_idem) simp_all
  then show ?thesis by (simp add: deletePost_def)
qed

lemma getUser_deletePost: "getUser (deletePost db pid uid) k = getUser db k"
  by (simp add: getUser_def deletePost_def)

lemma delete_api_posts_ok:
  assumes "uid \<noteq> 0" and "getUser db uid = Some u"
      and "ROLE_HIERARCHY (role u) \<ge> ROLE_HIERARCHY Moderator" and "getPost db pid = Some p"
  shows "delete_api_posts db (Some uid) pid
         = ((200, Message ''Post deleted successfully''), deletePost db pid uid)"
  using assms by (simp add: delete_api_posts_def authenticated_def)

text \<open>
  C9, at a failing input: post 2 of the sample was deleted by user 3. When mort,
  another moderator (user 7), deletes it again, the answer is 200 and \<open>deletedBy\<close>
  becomes 7: the call was no no-op, and who had deleted the post is lost. Neither the
  route nor \<open>deletePost\<close> reads the \<open>deleted\<close> flag.
\<close>

theorem delete_api_posts_overwrites_deletedBy:
  "getUser sample 7 = Some mort \<and> ROLE_HIERARCHY (role mort) \<ge> ROLE_HIERARCHY Moderator
   \<and> getPost sample 2 = Some p_dead \<and> deleted p_dead \<and> deletedBy p_dead = Some 3
   \<and> fst (delete_api_posts sample (Some 7) 2) = (200, Message ''Post deleted successfully'')
   \<and> getPost (snd (delete_api_posts sample (Some 7) 2)) 2 = Some (p_dead\<lparr>deletedBy := Some 7\<rparr>)
   \<and> snd (delete_api_posts sample (Some 7) 2) \<noteq> sample"
proof -
  have u: "getUser sample 7 = Some mort" by (simp add: getUser_def sample_defs)
  have r: "ROLE_HIERARCHY (role mort) \<ge> ROLE_HIERARCHY Moderator" by (simp add: mort_def)
  have p: "getPost sample 2 = Some p_dead" by (simp add: getPost_def sample_defs)
  have d: "deleted p_dead" "deletedBy p_dead = Some 3" by (simp_all add: p_dead_def)
  have e: "delete_api_posts sample (Some 7) 2
           = ((200, Message ''Post deleted successfully''), deletePost sample 2 7)"
    by (rule delete_api_posts_ok [OF _ u r p]) simp
  have g: "getPost (deletePost sample 2 7) 2 = Some (p_dead\<lparr>deletedBy := Some 7\<rparr>)"
    by (simp add: getPost_deletePost p) (simp add: p_dead_def)
  have "getPost (deletePost sample 2 7) 2 \<noteq> getPost sample 2"
    by (simp add: g p) (simp add: p_dead_def)
  then have n: "deletePost sample 2 7 \<noteq> sample" by auto
  from u r p d e g n show ?thesis by simp
qed

text \<open>
  What the route does in general: called by a stored user of rank moderator or above
  on a post that exists, it answers 200 and writes \<open>deleted\<close> and \<open>deletedBy\<close>, the
  acting user, whatever the post's state was, and nothing else of the store; so an
  active post becomes a deleted one with its deleter recorded, and only a user
  repeating their own delete leaves the store as it was.
\<close>

lemma delete_api_posts_marks_deleted:
  assumes "uid \<noteq> 0" and "getUser db uid = Some u"
      and "ROLE_HIERARCHY (role u) \<ge> ROLE_HIERARCHY Moderator" and "getPost db pid = Some p"
  shows "fst (delete_api_posts db (Some uid) pid) = (200, Message ''Post deleted successfully'')
       \<and> getPost (snd (delete_api_posts db (Some uid) pid)) pid
           = Some (p\<lparr>deleted := True, deletedBy := Some uid\<rparr>)
       \<and> (deleted p \<and> deletedBy p = Some uid \<longrightarrow>
            getPost (snd (delete_api_posts db (Some uid) pid)) pid = Some p)
       \<and> filter (\<lambda>q. post_id q \<noteq> pid) (posts (snd (delete_api_posts db (Some uid) pid)))
           = filter (\<lambda>q. post_id q \<noteq> pid) (posts db)
       \<and> users (snd (delete_api_posts db (Some uid) pid)) = users db
       \<and> appeals (snd (delete_api_posts db (Some uid) pid)) = appeals db
       \<and> delete_api_posts (snd (delete_api_posts db (Some uid) pid)) (Some uid) pid
           = delete_api_posts db (Some uid) pid"
proof -
  let ?db' = "deletePost db pid uid"
  have e: "delete_api_posts db (Some uid) pid = ((200, Message ''Post deleted successfully''), ?db')"
    by (rule delete_api_posts_ok [OF assms])
  have g: "getPost ?db' pid = Some (p\<lparr>deleted := True, deletedBy := Some uid\<rparr>)"
    by (simp add: getPost_deletePost assms(4))
  have u': "getUser ?db' uid = Some u" by (simp add: getUser_deletePost assms(2))
  have "delete_api_posts ?db' (Some uid) pid
        = ((200, Message ''Post deleted successfully''), deletePost ?db' pid uid)"
    by (rule delete_api_posts_ok [OF assms(1) u' assms(3) g])
  then have again: "delete_api_posts ?db' (Some uid) pid = delete_api_posts db (Some uid) pid"
    by (simp add: e deletePost_twice)
  have k: "users ?db' = users db" "appeals ?db' = appeals db" by (simp_all add: deletePost_def)
  have same: "deleted p \<and> deletedBy p = Some uid \<longrightarrow> getPost ?db' pid = Some p"
    by (auto simp: g)
  show ?thesis using g same deletePost_others [of pid db uid] k again by (simp add: e)
qed

text \<open>
  On the sample: mona, a moderator (user 3), deletes the live post 1; and on post 2,
  which she had deleted before, her call changes nothing.
\<close>

lemma delete_api_posts_marks_deleted_sample:
  "getUser sample 3 = Some mona \<and> ROLE_HIERARCHY (role mona) \<ge> ROLE_HIERARCHY Moderator
   \<and> getPost sample 1 = Some p_live \<and> \<not> deleted p_live
   \<and> fst (delete_api_posts sample (Some 3) 1) = (200, Message ''Post deleted successfully'')
   \<and> getPost (snd (delete_api_posts sample (Some 3) 1)) 1
       = Some (p_live\<lparr>deleted := True, deletedBy := Some 3\<rparr>)
   \<and> getPost sample 2 = Some p_dead \<and> deleted p_dead \<and> deletedBy p_dead = Some 3
   \<and> getPost (snd (delete_api_posts sample (Some 3) 2)) 2 = Some p_dead"
proof -
  have n: "(3::nat) \<noteq> 0" by simp
  have u: "getUser sample 3 = Some mona" by (simp add: getUser_def sample_defs)
  have r: "ROLE_HIERARCHY (role mona) \<ge> ROLE_HIERARCHY Moderator" by (simp add: mona_def)
  have p: "getPost sample 1 = Some p_live" by (simp add: getPost_def sample_defs)
  have a: "\<not> deleted p_live" by (simp add: p_live_def)
  have q: "getPost sample 2 = Some p_dead" by (simp add: getPost_def sample_defs)
  have d: "deleted p_dead" "deletedBy p_dead = Some 3" by (simp_all add: p_dead_def)
  from delete_api_posts_marks_deleted [OF n u r p]
  have w1: "fst (delete_api_posts sample (Some 3) 1) = (200, Message ''Post deleted successfully'')
            \<and> getPost (snd (delete_api_posts sample (Some 3) 1)) 1
                = Some (p_live\<lparr>deleted := True, deletedBy := Some 3\<rparr>)"
    by blast
  from delete_api_posts_marks_deleted [OF n u r q] d
  have w2: "getPost (snd (delete_api_posts sample (Some 3) 2)) 2 = Some p_dead" by blast
  from u r p a w1 q d w2 show ?thesis by blast
qed

subsection \<open>Appeals\<close>

text \<open>
  C5, at a failing input: appeal 7 of the sample is pending and mona is a moderator.
  Her \<open>POST /api/appeals/7/approve\<close> is answered 200 ``Appeal approved'' and the store
  is the one before, the appeal still pending; her \<open>POST /api/appeals/7/reject\<close> after
  it is answered 200 ``Appeal rejected'', not a conflict, and again nothing is stored.
\<close>

theorem post_api_appeals_decide_leaves_pending:
  "getUser sample 3 = Some mona \<and> role mona = Moderator
   \<and> find (\<lambda>a. appeal_id a = 7) (appeals sample) = Some a_pending \<and> approved a_pending = None
   \<and> post_api_appeals_approve sample (Some 3) 7 = ((200, Message ''Appeal approved''), sample)
   \<and> post_api_appeals_reject (snd (post_api_appeals_approve sample (Some 3) 7)) (Some 3) 7
       = ((200, Message ''Appeal rejected''), sample)"
proof -
  have u: "getUser sample 3 = Some mona" by (simp add: getUser_def sample_defs)
  have r: "role mona = Moderator" by (simp add: mona_def)
  have f: "find (\<lambda>a. appeal_id a = 7) (appeals sample) = Some a_pending"
    by (simp add: sample_defs)
  have a: "approved a_pending = None" by (simp add: a_pending_def)
  have e1: "post_api_appeals_approve sample (Some 3) 7 = ((200, Message ''Appeal approved''), sample)"
    by (simp add: post_api_appeals_approve_def authenticated_def notAppealStaff_def u r)
  have e2: "post_api_appeals_reject sample (Some 3) 7 = ((200, Message ''Appeal rejected''), sample)"
    by (simp add: post_api_appeals_reject_def authenticated_def notAppealStaff_def u r)
  from u r f a e1 e2 show ?thesis by simp
qed

text \<open>
  For every store, session and appeal id, neither handler writes anything.
\<close>

lemma post_api_appeals_write_nothing:
  "snd (post_api_appeals_approve db session appealId) = db
   \<and> snd (post_api_appeals_reject db session appealId) = db"
  by (simp add: post_api_appeals_approve_def post_api_appeals_reject_def split: option.splits)

text \<open>
  Rank alone does not open the appeal routes: dana, a developer (rank 3), is answered
  403.
\<close>

lemma get_api_appeals_developer_denied:
  "get_api_appeals sample (Some 5) = (403, Message ''Not authorized'')"
  by (simp add: get_api_appeals_def authenticated_def notAppealStaff_def getUser_def
        sample_def alice_def hank_def mona_def adam_def dana_def)

text \<open>
  An answer 200 of \<open>GET /api/appeals\<close> is to a stored user who is owner, admin or
  moderator, so of rank moderator or above.
\<close>

lemma get_api_appeals_staff_only:
  assumes "get_api_appeals db session = (200, body)"
  shows "\<exists>uid u. session = Some uid \<and> getUser db uid = Some u
           \<and> ROLE_HIERARCHY (role u) \<ge> ROLE_HIERARCHY Moderator"
proof -
  from assms obtain uid where s: "session = Some uid"
    and staff: "\<not> notAppealStaff (getUser db uid)"
    by (auto simp: get_api_appeals_def authenticated_def split: if_splits option.splits)
  from staff obtain u where u: "getUser db uid = Some u"
    and r: "role u = Owner \<or> role u = Admin \<or> role u = Moderator"
    by (auto simp: notAppealStaff_def split: option.splits)
  from r have "ROLE_HIERARCHY (role u) \<ge> ROLE_HIERARCHY Moderator" by auto
  with s u show ?thesis by blast
qed

text \<open>
  The comparison with NULL is never true, so the query selects no row, whatever the
  store holds.
\<close>

lemma getAppeals_empty: "getAppeals db = []"
  by (simp add: getAppeals_def sql_eq_def orderBy_desc_def split: option.splits)

text \<open>
  C10, at a failing input: the sample holds two pending appeals, 7 and 10, and mona is
  a moderator. \<open>GET /api/appeals\<close> answers her 200 with the empty list: the appeals that
  are still undecided are not listed.
\<close>

theorem get_api_appeals_lists_no_pending_appeal:
  "getUser sample 3 = Some mona \<and> role mona = Moderator
   \<and> a_pending \<in> set (appeals sample) \<and> approved a_pending = None
   \<and> a_newer \<in> set (appeals sample) \<and> approved a_newer = None
   \<and> get_api_appeals sample (Some 3) = (200, AppealList [])"
proof -
  have u: "getUser sample 3 = Some mona" by (simp add: getUser_def sample_defs)
  have r: "role mona = Moderator" by (simp add: mona_def)
  have m: "a_pending \<in> set (appeals sample)" "a_newer \<in> set (appeals sample)"
    by (simp_all add: sample_def)
  have a: "approved a_pending = None" "approved a_newer = None"
    by (simp_all add: a_pending_def a_newer_def)
  have "get_api_appeals sample (Some 3) = (200, AppealList [])"
    using u by (simp add: get_api_appeals_def authenticated_def notAppealStaff_def r getAppeals_empty)
  with u r m a show ?thesis by simp
qed

end
